theory Spec2Isabelle
  imports Complex_Main
begin

section \<open>better-lookup: a caching DNS lookup and its throttle\<close>

text \<open>
  A shallow embedding of \<^verbatim>\<open>src/index.ts\<close> (the resolver \<^verbatim>\<open>lookup\<close>, the hosts-file
  loader \<^verbatim>\<open>loadHostsConfig\<close>) and of \<^verbatim>\<open>useThrottle\<close> (the keyed throttle the resolver
  runs its network query through).

  Conventions of the model.
  \<^item> Node's \<^verbatim>\<open>net.isIP\<close>, the file system and the DNS resolver are not code of the
    repository: \<^verbatim>\<open>isIP\<close> is a parameter, and the outcome of every awaited external call
    (\<^verbatim>\<open>readFile\<close>, \<^verbatim>\<open>resolve4\<close>, \<^verbatim>\<open>resolve6\<close>) and every clock reading is a field of
    the record \<open>world\<close> handed to the call.
  \<^item> A rejected promise or a \<^verbatim>\<open>throw\<close> is the \<open>Inl\<close> of a sum; every thrown value of
    the repository is an \<^verbatim>\<open>Error\<close> object, hence truthy, and is a record \<open>js_error\<close>.
  \<^item> A JavaScript string is the list of its UTF-16 code units, so that white space is
    what \<^verbatim>\<open>trim()\<close> and \<^verbatim>\<open>\s\<close> take it to be; \<open>js\<close> writes one from ASCII text.
  \<^item> \<^verbatim>\<open>Cache\<close> and the hosts tables are plain objects: a read of a property finds the
    object's own entry, or else what every object inherits (\<^verbatim>\<open>constructor\<close>,
    \<^verbatim>\<open>toString\<close>, ...), or else \<^verbatim>\<open>undefined\<close>.
  \<^item> The array \<^verbatim>\<open>result\<close> of a query is shared: it is the array of the hosts table when
    the table has one for the hostname, and it is what the throttle task stores. The
    arrays of the hosts tables therefore live in a store (\<open>tables\<close>), and a stored
    outcome refers to them.
  \<^item> Clock readings and the ttl of a DNS record are integers: \<^verbatim>\<open>Date.now()\<close> counts
    milliseconds, \<^verbatim>\<open>timestamp()\<close> seconds. The interval of a throttle is any number, a
    real.
  \<^item> A call is run from its start to its end, with no other call in between; the
    places where a call is suspended are the boundaries of the functions \<open>updateV4\<close>,
    \<open>fetchV6\<close>, \<open>throttle\<close>, \<open>throttle_settle\<close> and \<open>throttle_drain\<close>, so that an
    interleaving is a composition of these. The garbage collection (\<open>gc_sweep\<close>) runs
    between calls, and so does the timer that reloads the hosts file (\<open>reload_hosts\<close>).
\<close>

subsection \<open>Data\<close>

type_synonym jstring = "nat list"

definition js :: "string \<Rightarrow> jstring" where
  "js s = map of_char s"

text \<open>\<^verbatim>\<open>type AddressInfo = { address: string, family: 4 | 6 }\<close> and
  \<^verbatim>\<open>type AddressInfoDetail = AddressInfo & { expireAt: number }\<close>.
  A family is the number the source uses: 4, 6, and 0 for "not given".\<close>

record AddressInfo =
  address :: jstring
  family :: nat

record AddressInfoDetail = AddressInfo +
  expireAt :: int

type_synonym CacheData = "jstring \<rightharpoonup> AddressInfoDetail list"

text \<open>An \<^verbatim>\<open>Error\<close> object with the fields the source reads or assigns
  (\<^verbatim>\<open>undefined\<close> is \<open>None\<close>).\<close>

record js_error =
  err_name :: jstring
  err_message :: jstring
  err_errno :: "int option"
  err_code :: "jstring option"
  err_syscall :: "jstring option"
  err_hostname :: "jstring option"

type_synonym 'v outcome = "js_error + 'v"

text \<open>A TypeError of the engine: a call of a method the receiver does not have, or a
  read of a property of \<^verbatim>\<open>undefined\<close>. The text of the message is the engine's; the
  texts below are those of V8.\<close>

definition TypeError :: "string \<Rightarrow> js_error" where
  "TypeError msg =
     \<lparr>err_name = js ''TypeError'', err_message = js msg,
      err_errno = None, err_code = None, err_syscall = None, err_hostname = None\<rparr>"

definition MIN_TTL_SEC :: int where
  "MIN_TTL_SEC = 10"

definition DEFAULT_TTL :: real where
  "DEFAULT_TTL = of_int MIN_TTL_SEC * 1000"

text \<open>\<^verbatim>\<open>(Date.now() / 1000) | 0\<close>: \<^verbatim>\<open>| 0\<close> drops the fraction (towards zero) and wraps
  the whole seconds into a signed 32-bit integer.\<close>

definition timestamp :: "int \<Rightarrow> int" where
  "timestamp ms =
     (let secs = (if 0 \<le> ms then ms div 1000 else - ((- ms) div 1000));
          q = secs mod 4294967296
      in if q < 2147483648 then q else q - 4294967296)"

subsection \<open>Plain objects\<close>

text \<open>The names of the properties every object inherits from \<^verbatim>\<open>Object.prototype\<close>. Each
  of them holds a function, or for \<^verbatim>\<open>__proto__\<close> the prototype itself: a truthy value
  that is not an array and has no method \<^verbatim>\<open>filter\<close>, \<^verbatim>\<open>push\<close> or \<^verbatim>\<open>map\<close>.\<close>

definition Object_prototype_names :: "jstring list" where
  "Object_prototype_names =
     map js [''constructor'', ''__defineGetter__'', ''__defineSetter__'', ''hasOwnProperty'',
             ''__lookupGetter__'', ''__lookupSetter__'', ''isPrototypeOf'',
             ''propertyIsEnumerable'', ''toString'', ''valueOf'', ''__proto__'',
             ''toLocaleString'']"

text \<open>\<^verbatim>\<open>obj[key]\<close> for an object created as \<^verbatim>\<open>{}\<close> whose own entries are arrays: the
  array of the key, an inherited value, or \<^verbatim>\<open>undefined\<close>. The source never gives an
  object an own entry under an inherited name: every assignment follows a read of the
  same property, which finds the inherited value.\<close>

datatype 'a property = Has 'a | Inherited | Missing

definition get_prop :: "(jstring \<rightharpoonup> 'a) \<Rightarrow> jstring \<Rightarrow> 'a property" where
  "get_prop obj key =
     (case obj key of
        Some v \<Rightarrow> Has v
      | None \<Rightarrow> if key \<in> set Object_prototype_names then Inherited else Missing)"

subsection \<open>useThrottle\<close>

text \<open>
  \<^verbatim>\<open>type ThrottleTask = { interval, lastActive, cache?: { value, error }, queue, func }\<close>.
  The cache \<^verbatim>\<open>{ value: v, error: null }\<close> is \<open>Some (Inr v)\<close>, the cache
  \<^verbatim>\<open>{ value: undefined, error: e }\<close> is \<open>Some (Inl e)\<close>, and \<^verbatim>\<open>undefined\<close> is \<open>None\<close>.
  The queue holds the pending promises of the waiting callers, named by a number, in
  insertion order. \<open>backgroundUpdate\<close> is the variable the closure \<^verbatim>\<open>throttle\<close> captures.
\<close>

record 'v ThrottleTask =
  interval :: real
  lastActive :: int
  cache :: "'v outcome option"
  queue :: "nat list"
  backgroundUpdate :: bool

definition createThrottleTask :: "real \<Rightarrow> bool \<Rightarrow> 'v ThrottleTask" where
  "createThrottleTask ival bg =
     \<lparr>interval = ival, lastActive = 0, cache = None, queue = [], backgroundUpdate = bg\<rparr>"

text \<open>
  What one call of \<^verbatim>\<open>throttle\<close> does before its first suspension:
  \<^item> \<open>Lead\<close>: the caller invokes \<^verbatim>\<open>handle\<close> and awaits it (the cache was cleared);
  \<^item> \<open>LeadBackground c\<close>: the caller invokes \<^verbatim>\<open>handle\<close> without awaiting it and
    settles with the previous outcome \<open>c\<close>;
  \<^item> \<open>Served c\<close>: the caller settles with the cached outcome \<open>c\<close>, \<^verbatim>\<open>handle\<close> is not invoked;
  \<^item> \<open>Waiting\<close>: the caller's promise was added to the queue, \<^verbatim>\<open>handle\<close> is not invoked.
\<close>

datatype 'v call_result = Lead | LeadBackground "'v outcome" | Served "'v outcome" | Waiting

definition throttle :: "'v ThrottleTask \<Rightarrow> int \<Rightarrow> nat \<Rightarrow> 'v ThrottleTask \<times> 'v call_result" where
  "throttle task now job =
     (if of_int (now - lastActive task) \<ge> interval task then
        (case cache task of
           Some c \<Rightarrow>
             if backgroundUpdate task then (task\<lparr>lastActive := now\<rparr>, LeadBackground c)
             else (task\<lparr>lastActive := now, cache := None\<rparr>, Lead)
         | None \<Rightarrow> (task\<lparr>lastActive := now, cache := None\<rparr>, Lead))
      else
        (case cache task of
           Some c \<Rightarrow> (task, Served c)
         | None \<Rightarrow> (task\<lparr>queue := queue task @ [job]\<rparr>, Waiting)))"

text \<open>The leader's continuation after \<^verbatim>\<open>await handle(...)\<close>: the outcome is stored,
  and the leader settles with it. The same assignment ends a background update.\<close>

definition throttle_settle :: "'v ThrottleTask \<Rightarrow> 'v outcome \<Rightarrow> 'v ThrottleTask" where
  "throttle_settle task out = task\<lparr>cache := Some out\<rparr>"

text \<open>The \<^verbatim>\<open>setImmediate\<close> callback of a leader that settled with \<open>out\<close>: every queued
  promise is settled with \<open>out\<close> and removed.\<close>

definition throttle_drain :: "'v ThrottleTask \<Rightarrow> 'v outcome \<Rightarrow> 'v ThrottleTask \<times> (nat \<times> 'v outcome) list" where
  "throttle_drain task out = (task\<lparr>queue := []\<rparr>, map (\<lambda>job. (job, out)) (queue task))"

text \<open>The registry \<^verbatim>\<open>useThrottle.tasks\<close> with \<^verbatim>\<open>useThrottle.gcTimer\<close> (set or not).\<close>

record 'v registry =
  gcTimer :: bool
  tasks :: "jstring \<rightharpoonup> 'v ThrottleTask"

definition RangeError :: js_error where
  "RangeError =
     \<lparr>err_name = js ''RangeError'',
      err_message = js ''The 'interval' time for throttle must not be smaller than 1'',
      err_errno = None, err_code = None, err_syscall = None, err_hostname = None\<rparr>"

definition useThrottle :: "'v registry \<Rightarrow> jstring \<Rightarrow> real \<Rightarrow> bool \<Rightarrow> 'v registry \<times> (js_error + 'v ThrottleTask)" where
  "useThrottle reg resource ival bg =
     (if ival < 1 then (reg, Inl RangeError)
      else
        (let reg1 = reg\<lparr>gcTimer := True\<rparr>
         in case tasks reg1 resource of
              Some task \<Rightarrow> (reg1, Inr task)
            | None \<Rightarrow>
                (let task = createThrottleTask ival bg
                 in (reg1\<lparr>tasks := (tasks reg1)(resource \<mapsto> task)\<rparr>, Inr task))))"

definition gcInterval :: real where
  "gcInterval = 30000"

text \<open>One run of the garbage-collection timer at \<^verbatim>\<open>Date.now() = now\<close>.\<close>

definition gc_sweep :: "'v registry \<Rightarrow> int \<Rightarrow> 'v registry" where
  "gc_sweep reg now =
     reg\<lparr>tasks := (\<lambda>key. case tasks reg key of
                       None \<Rightarrow> None
                     | Some task \<Rightarrow>
                         if of_int (now - lastActive task) > max (interval task + 5) gcInterval
                         then None else Some task)\<rparr>"


subsection \<open>loadHostsConfig\<close>

text \<open>The white space of \<^verbatim>\<open>trim()\<close> and of the pattern \<^verbatim>\<open>\s\<close>: tab, line feed, vertical
  tab, form feed, carriage return, space, U+00A0, U+1680, U+2000 to U+200A, U+2028,
  U+2029, U+202F, U+205F, U+3000 and U+FEFF.\<close>

definition is_space :: "nat \<Rightarrow> bool" where
  "is_space c =
     (c \<in> {0x09, 0x0A, 0x0B, 0x0C, 0x0D, 0x20, 0xA0, 0x1680, 0x2028, 0x2029, 0x202F, 0x205F,
            0x3000, 0xFEFF}
      \<or> (0x2000 \<le> c \<and> c \<le> 0x200A))"

text \<open>\<^verbatim>\<open>s.split(/\r\n|\n/)\<close>: \<open>cur\<close> is the line read so far.\<close>

fun split_lines_from :: "jstring \<Rightarrow> jstring \<Rightarrow> jstring list" where
  "split_lines_from cur [] = [cur]"
| "split_lines_from cur (c # cs) =
     (if c = 0x0D \<and> cs \<noteq> [] \<and> hd cs = 0x0A then cur # split_lines_from [] (tl cs)
      else if c = 0x0A then cur # split_lines_from [] cs
      else split_lines_from (cur @ [c]) cs)"

definition split_lines :: "jstring \<Rightarrow> jstring list" where
  "split_lines s = split_lines_from [] s"

definition trim :: "jstring \<Rightarrow> jstring" where
  "trim s = rev (dropWhile is_space (rev (dropWhile is_space s)))"

text \<open>\<^verbatim>\<open>s.startsWith("#")\<close>\<close>

definition startsWith_hash :: "jstring \<Rightarrow> bool" where
  "startsWith_hash s = (case s of [] \<Rightarrow> False | c # _ \<Rightarrow> c = 0x23)"

text \<open>\<^verbatim>\<open>s.split(/\s+/)\<close>: \<open>cur\<close> is the segment read so far; a run of white space ends
  it. The empty string gives the one segment \<^verbatim>\<open>""\<close>.\<close>

function split_spaces_from :: "jstring \<Rightarrow> jstring \<Rightarrow> jstring list" where
  "split_spaces_from cur [] = [cur]"
| "split_spaces_from cur (c # cs) =
     (if is_space c then cur # split_spaces_from [] (dropWhile is_space cs)
      else split_spaces_from (cur @ [c]) cs)"
  by pat_completeness auto
termination
  by (relation "measure (\<lambda>(cur, s). length s)")
     (auto simp: less_Suc_eq_le length_dropWhile_le)

definition split_spaces :: "jstring \<Rightarrow> jstring list" where
  "split_spaces s = split_spaces_from [] s"

text \<open>The \<^verbatim>\<open>for\<close> loop over \<^verbatim>\<open>segments[1..]\<close> of one line: \<^verbatim>\<open>break\<close> at a segment that
  starts with \<^verbatim>\<open>#\<close>, \<^verbatim>\<open>continue\<close> when the address is not an IP literal, else
  \<^verbatim>\<open>(configs[hostname] || (configs[hostname] = [])).push(...)\<close>: the record is pushed
  onto the array of the hostname, created empty when the property is \<^verbatim>\<open>undefined\<close>; an
  inherited value has no \<^verbatim>\<open>push\<close>, and the call throws a TypeError out of the loader.\<close>

fun add_hostnames :: "(jstring \<Rightarrow> nat) \<Rightarrow> int \<Rightarrow> jstring \<Rightarrow> jstring list \<Rightarrow> CacheData \<Rightarrow> CacheData outcome" where
  "add_hostnames isIP expires addr [] configs = Inr configs"
| "add_hostnames isIP expires addr (host # rest) configs =
     (if startsWith_hash host then Inr configs
      else if isIP addr = 0 then add_hostnames isIP expires addr rest configs
      else
        (case get_prop configs host of
           Has l \<Rightarrow>
             add_hostnames isIP expires addr rest
               (configs(host \<mapsto> l @ [\<lparr>address = addr, family = isIP addr, expireAt = expires\<rparr>]))
         | Missing \<Rightarrow>
             add_hostnames isIP expires addr rest
               (configs(host \<mapsto> [\<lparr>address = addr, family = isIP addr, expireAt = expires\<rparr>]))
         | Inherited \<Rightarrow>
             Inl (TypeError ''(configs[hostname] || (intermediate value)).push is not a function'')))"

text \<open>The reducer: \<^verbatim>\<open>segments[0]\<close> is the address (\<^verbatim>\<open>split\<close> never returns an empty array).\<close>

definition add_segments :: "(jstring \<Rightarrow> nat) \<Rightarrow> int \<Rightarrow> CacheData \<Rightarrow> jstring list \<Rightarrow> CacheData outcome" where
  "add_segments isIP expires configs segments =
     (case segments of
        [] \<Rightarrow> Inr configs
      | addr # rest \<Rightarrow> add_hostnames isIP expires addr rest configs)"

text \<open>\<^verbatim>\<open>reduce\<close> over the lines, from the table \<open>configs\<close>; an exception of the reducer ends
  it.\<close>

fun reduce_segments :: "(jstring \<Rightarrow> nat) \<Rightarrow> int \<Rightarrow> CacheData \<Rightarrow> jstring list list \<Rightarrow> CacheData outcome" where
  "reduce_segments isIP expires configs [] = Inr configs"
| "reduce_segments isIP expires configs (segments # rest) =
     (case add_segments isIP expires configs segments of
        Inl e \<Rightarrow> Inl e
      | Inr configs1 \<Rightarrow> reduce_segments isIP expires configs1 rest)"

text \<open>The lines of the file as the reducer sees them: trimmed, comment lines dropped,
  split at white space.\<close>

definition segments_of :: "jstring \<Rightarrow> jstring list list" where
  "segments_of hostFile =
     map split_spaces (filter (\<lambda>line. \<not> startsWith_hash line) (map trim (split_lines hostFile)))"

text \<open>\<^verbatim>\<open>loadHostsConfig\<close> once \<^verbatim>\<open>readFile\<close> has returned \<open>hostFile\<close>, with
  \<^verbatim>\<open>Date.now() = now_ms\<close> at that moment: the table, or the TypeError.\<close>

definition loadHostsConfig :: "(jstring \<Rightarrow> nat) \<Rightarrow> int \<Rightarrow> jstring \<Rightarrow> CacheData outcome" where
  "loadHostsConfig isIP now_ms hostFile =
     (let expireAt = timestamp now_ms + MIN_TTL_SEC
      in reduce_segments isIP expireAt Map.empty (segments_of hostFile))"

text \<open>A line counts as having an address when its first segment is an IP literal.\<close>

definition has_ip_address :: "(jstring \<Rightarrow> nat) \<Rightarrow> jstring list \<Rightarrow> bool" where
  "has_ip_address isIP segments = (case segments of [] \<Rightarrow> False | addr # _ \<Rightarrow> isIP addr \<noteq> 0)"

text \<open>The invariant of the reducer: every record of the table expires at \<open>e\<close> and
  carries an IP literal with its family.\<close>

definition stamped :: "(jstring \<Rightarrow> nat) \<Rightarrow> int \<Rightarrow> CacheData \<Rightarrow> bool" where
  "stamped isIP e configs =
     (\<forall>host recs r. configs host = Some recs \<longrightarrow> r \<in> set recs \<longrightarrow>
        expireAt r = e \<and> isIP (address r) \<noteq> 0 \<and> family r = isIP (address r))"

subsection \<open>The world of one call, and the module's state\<close>

text \<open>
  Everything one call of \<^verbatim>\<open>lookup\<close> reads from outside the program: \<^verbatim>\<open>net.isIP\<close>, the
  value of \<^verbatim>\<open>Date.now()\<close> at each place the call reads the clock, and what each awaited
  external call settles with. A DNS record is \<^verbatim>\<open>{ address, ttl }\<close>. \<open>job\<close> and \<open>job_hosts\<close>
  name the promises this call would leave in a throttle queue.
\<close>

record world =
  net_isIP :: "jstring \<Rightarrow> nat"
  job :: nat
  job_hosts :: nat
  now_cache :: int
  now_throttle :: int
  now_hostsThrottle :: int
  fs_readFile :: "jstring outcome"
  now_hosts :: int
  dns_resolve4 :: "(jstring \<times> int) list outcome"
  now_v4 :: int
  dns_resolve6 :: "(jstring \<times> int) list outcome"
  now_v6 :: int

text \<open>
  What the variable \<^verbatim>\<open>result\<close> of a query holds, and what the throttle task of the query
  stores when the query returns it:
  \<^item> \<open>Seeded i host\<close>: the array of \<open>host\<close> in the hosts table number \<open>i\<close>, when
    \<^verbatim>\<open>HostsConfig[hostname]\<close> is an array; its elements are read from the store;
  \<^item> \<open>Fresh xs\<close>: the array created by \<^verbatim>\<open>|| []\<close>, with the elements \<open>xs\<close>; no other
    variable refers to it, and nothing pushes onto it once the query has returned;
  \<^item> \<open>NotArray\<close>: the inherited value \<^verbatim>\<open>HostsConfig[hostname]\<close> is when the hostname is
    an inherited name.
\<close>

datatype result_array = Seeded nat jstring | Fresh "AddressInfoDetail list" | NotArray

text \<open>The module's variables and the objects they refer to. \<open>tables\<close> is the store of
  the hosts tables built so far, by number, each with the present elements of its
  arrays, and \<open>n_tables\<close> their count. \<^verbatim>\<open>HostsConfig\<close> (\<^verbatim>\<open>undefined\<close> until first
  loaded) and the outcome stored in the task behind \<^verbatim>\<open>hostsThrottle\<close> refer to a table
  by its number. \<open>throttles\<close> is the registry of the tasks that \<^verbatim>\<open>lookup\<close> asks
  \<^verbatim>\<open>useThrottle\<close> for.\<close>

record state =
  Cache :: CacheData
  tables :: "nat \<Rightarrow> CacheData"
  n_tables :: nat
  HostsConfig :: "nat option"
  hostsTask :: "nat ThrottleTask"
  throttles :: "result_array registry"

definition initial_state :: state where
  "initial_state =
     \<lparr>Cache = Map.empty, tables = (\<lambda>i. Map.empty), n_tables = 0, HostsConfig = None,
      hostsTask = createThrottleTask DEFAULT_TTL False,
      throttles = \<lparr>gcTimer = True, tasks = Map.empty\<rparr>\<rparr>"

text \<open>The elements of an array at the present state; \<open>None\<close> when the value is not an
  array.\<close>

definition read_array :: "state \<Rightarrow> result_array \<Rightarrow> AddressInfoDetail list option" where
  "read_array st r =
     (case r of
        Seeded i host \<Rightarrow> tables st i host
      | Fresh xs \<Rightarrow> Some xs
      | NotArray \<Rightarrow> None)"

datatype upstream_query = ReadHosts | QueryA jstring | QueryAaaa jstring

text \<open>How a call ends: its promise is fulfilled, rejected or still pending, or the
  call threw before it returned a promise.\<close>

datatype 'a promise = Fulfilled 'a | Rejected js_error | Pending | Thrown js_error

definition settled :: "'a outcome \<Rightarrow> 'a promise" where
  "settled out = (case out of Inl e \<Rightarrow> Rejected e | Inr v \<Rightarrow> Fulfilled v)"

subsection \<open>The throttled query of lookup\<close>

text \<open>The local variables of the function handed to the throttle, and the upstream
  queries it has issued so far.\<close>

record locals =
  result :: result_array
  err4 :: "js_error option"
  err6 :: "js_error option"
  v4updated :: bool
  queries :: "upstream_query list"

text \<open>\<^verbatim>\<open>result.push(...recs)\<close>: onto the array of the hosts table, in the store, or onto
  the fresh array; \<open>None\<close> when \<^verbatim>\<open>result\<close> is not an array and the call throws a
  TypeError.\<close>

definition push_result :: "AddressInfoDetail list \<Rightarrow> state \<times> locals \<Rightarrow> (state \<times> locals) option" where
  "push_result recs sl =
     (case sl of (st, l) \<Rightarrow>
        (case result l of
           Seeded i host \<Rightarrow>
             Some (st\<lparr>tables := (tables st)
                       (i := (tables st i)
                          (host \<mapsto> (case tables st i host of None \<Rightarrow> [] | Some xs \<Rightarrow> xs) @ recs))\<rparr>,
                   l)
         | Fresh xs \<Rightarrow> Some (st, l\<lparr>result := Fresh (xs @ recs)\<rparr>)
         | NotArray \<Rightarrow> None))"

text \<open>\<^verbatim>\<open>({ address, ttl }) => ({ address, family, expireAt: Math.max(ttl + now, MIN_TTL_SEC) })\<close>\<close>

definition stamp :: "nat \<Rightarrow> int \<Rightarrow> jstring \<times> int \<Rightarrow> AddressInfoDetail" where
  "stamp fam now r =
     (case r of (addr, ttl) \<Rightarrow>
        \<lparr>address = addr, family = fam, expireAt = max (ttl + now) MIN_TTL_SEC\<rparr>)"

text \<open>\<^verbatim>\<open>updateV4\<close>: query the A records; on success stamp them, push them onto
  \<^verbatim>\<open>result\<close> and replace the family-4 records of the cache slot; on failure set
  \<^verbatim>\<open>err4\<close>. A TypeError thrown inside the \<^verbatim>\<open>try\<close> (by \<^verbatim>\<open>result.push\<close>, or by
  \<^verbatim>\<open>cacheSlot.filter\<close> on an inherited value) is caught into \<^verbatim>\<open>err4\<close> as well.\<close>

definition updateV4 :: "world \<Rightarrow> jstring \<Rightarrow> state \<times> locals \<Rightarrow> state \<times> locals" where
  "updateV4 w host sl =
     (case sl of (st, l) \<Rightarrow>
        (let l1 = l\<lparr>v4updated := True, queries := queries l @ [QueryA host]\<rparr>
         in case dns_resolve4 w of
              Inl e \<Rightarrow> (st, l1\<lparr>err4 := Some e\<rparr>)
            | Inr records \<Rightarrow>
                (let now = timestamp (now_v4 w);
                     v4 = map (stamp 4 now) records
                 in case push_result v4 (st, l1) of
                      None \<Rightarrow> (st, l1\<lparr>err4 := Some (TypeError ''result.push is not a function'')\<rparr>)
                    | Some (st1, l2) \<Rightarrow>
                        (case get_prop (Cache st1) host of
                           Has cacheSlot \<Rightarrow>
                             (st1\<lparr>Cache := (Cache st1)(host \<mapsto> filter (\<lambda>a. family a \<noteq> 4) cacheSlot @ v4)\<rparr>, l2)
                         | Missing \<Rightarrow> (st1\<lparr>Cache := (Cache st1)(host \<mapsto> v4)\<rparr>, l2)
                         | Inherited \<Rightarrow>
                             (st1, l2\<lparr>err4 := Some (TypeError ''cacheSlot.filter is not a function'')\<rparr>)))))"

text \<open>
  The \<^verbatim>\<open>try\<close> block of \<^verbatim>\<open>if (!family || family === 6) { try { ... } catch (e) { ... } }\<close>:
  the state and the locals it leaves, and the exception it ends with, if any. On success
  the records are stamped and pushed onto \<^verbatim>\<open>result\<close>. When the cache slot exists, the
  source builds the new slot in the local \<^verbatim>\<open>cacheSlot\<close> and then assigns
  \<^verbatim>\<open>cacheSlot = Cache[hostname]\<close>: \<^verbatim>\<open>Cache\<close> is not written. When the slot does not
  exist, \<^verbatim>\<open>Cache[hostname] = v6\<close>.
\<close>

definition fetchV6_try :: "world \<Rightarrow> jstring \<Rightarrow> state \<times> locals \<Rightarrow> (state \<times> locals) \<times> js_error option" where
  "fetchV6_try w host sl =
     (case dns_resolve6 w of
        Inl e \<Rightarrow> (sl, Some e)
      | Inr records \<Rightarrow>
          (let now = timestamp (now_v6 w);
               v6 = map (stamp 6 now) records
           in case push_result v6 sl of
                None \<Rightarrow> (sl, Some (TypeError ''result.push is not a function''))
              | Some (st1, l2) \<Rightarrow>
                  (case get_prop (Cache st1) host of
                     Has cacheSlot \<Rightarrow> ((st1, l2), None)
                   | Missing \<Rightarrow> ((st1\<lparr>Cache := (Cache st1)(host \<mapsto> v6)\<rparr>, l2), None)
                   | Inherited \<Rightarrow>
                       ((st1, l2), Some (TypeError ''cacheSlot.filter is not a function'')))))"

text \<open>
  The \<^verbatim>\<open>catch (e)\<close> block. On \<^verbatim>\<open>ENODATA\<close> of \<^verbatim>\<open>queryAaaa\<close> with \<^verbatim>\<open>family === 6\<close>:
  \<^verbatim>\<open>updateV4\<close> runs unless it already has; the local named \<^verbatim>\<open>v4\<close> is
  \<^verbatim>\<open>cacheSlot.filter(a => a.family !== 4)\<close>; its records are mapped to \<^verbatim>\<open>::ffff:\<close>
  addresses of family 6 and replace the family-6 records of the slot; \<^verbatim>\<open>result\<close> is not
  touched. With no cache slot, or an inherited value for it, \<^verbatim>\<open>cacheSlot.filter\<close> throws
  a TypeError, which the inner \<^verbatim>\<open>catch\<close> turns into \<^verbatim>\<open>err6 = e\<close>. On any other exception
  \<^verbatim>\<open>err6 = e\<close>.
\<close>

definition fetchV6_catch :: "world \<Rightarrow> jstring \<Rightarrow> nat \<Rightarrow> js_error \<Rightarrow> state \<times> locals \<Rightarrow> state \<times> locals" where
  "fetchV6_catch w host fam e sl =
     (case sl of (st, l) \<Rightarrow>
        if err_code e = Some (js ''ENODATA'') \<and> err_syscall e = Some (js ''queryAaaa'') \<and> fam = 6 then
          (case (if v4updated l then (st, l) else updateV4 w host (st, l)) of (st1, l2) \<Rightarrow>
             (case get_prop (Cache st1) host of
                Has cacheSlot \<Rightarrow>
                  (let v4 = filter (\<lambda>a. family a \<noteq> 4) cacheSlot;
                       v6 = map (\<lambda>a. \<lparr>address = js ''::ffff:'' @ address a, family = 6,
                                       expireAt = expireAt a\<rparr>) v4
                   in (st1\<lparr>Cache := (Cache st1)(host \<mapsto> filter (\<lambda>a. family a \<noteq> 6) cacheSlot @ v6)\<rparr>,
                       l2))
              | Missing \<Rightarrow> (st1, l2\<lparr>err6 := Some e\<rparr>)
              | Inherited \<Rightarrow> (st1, l2\<lparr>err6 := Some e\<rparr>)))
        else (st, l\<lparr>err6 := Some e\<rparr>))"

text \<open>The whole block: the AAAA query is issued, the \<^verbatim>\<open>try\<close> block runs, and the
  \<^verbatim>\<open>catch\<close> block when it threw.\<close>

definition fetchV6 :: "world \<Rightarrow> jstring \<Rightarrow> nat \<Rightarrow> state \<times> locals \<Rightarrow> state \<times> locals" where
  "fetchV6 w host fam sl =
     (case sl of (st, l) \<Rightarrow>
        (case fetchV6_try w host (st, l\<lparr>queries := queries l @ [QueryAaaa host]\<rparr>) of
           (sl1, None) \<Rightarrow> sl1
         | (sl1, Some e) \<Rightarrow> fetchV6_catch w host fam e sl1))"

definition no_data_error :: "jstring \<Rightarrow> js_error" where
  "no_data_error host =
     \<lparr>err_name = js ''Error'', err_message = js ''queryA and queryAaaa ENODATA '' @ host,
      err_errno = None, err_code = Some (js ''ENODATA''), err_syscall = None,
      err_hostname = Some host\<rparr>"

text \<open>The last statement of the throttled function: throw or return \<^verbatim>\<open>result\<close>.\<close>

definition work_outcome :: "jstring \<Rightarrow> nat \<Rightarrow> locals \<Rightarrow> result_array outcome" where
  "work_outcome host fam l =
     (if err4 l \<noteq> None \<and> err6 l \<noteq> None \<and> fam = 0 then Inl (no_data_error host)
      else if err4 l \<noteq> None \<and> fam = 4 then Inl (the (err4 l))
      else if err6 l \<noteq> None \<and> fam = 6 then Inl (the (err6 l))
      else Inr (result l))"

text \<open>The work of the hosts task: read and parse the file; a table that was built is
  put into the store under the next number.\<close>

definition load_table :: "world \<Rightarrow> state \<Rightarrow> state \<times> nat outcome" where
  "load_table w st =
     (case fs_readFile w of
        Inl e \<Rightarrow> (st, Inl e)
      | Inr hostFile \<Rightarrow>
          (case loadHostsConfig (net_isIP w) (now_hosts w) hostFile of
             Inl e \<Rightarrow> (st, Inl e)
           | Inr table \<Rightarrow>
               (st\<lparr>tables := (tables st)(n_tables st := table), n_tables := Suc (n_tables st)\<rparr>,
                Inr (n_tables st))))"

text \<open>\<^verbatim>\<open>hostsThrottle(loadHostsConfig)\<close>: one call of the throttle of the hosts task. A
  leader runs the work and stores the outcome; the work of a background leader is run to
  its end as well.\<close>

definition hostsThrottle :: "world \<Rightarrow> state \<Rightarrow> state \<times> nat promise \<times> upstream_query list" where
  "hostsThrottle w st =
     (case throttle (hostsTask st) (now_hostsThrottle w) (job_hosts w) of
        (task1, Lead) \<Rightarrow>
          (case load_table w st of (st1, out) \<Rightarrow>
             (st1\<lparr>hostsTask := throttle_settle task1 out\<rparr>, settled out, [ReadHosts]))
      | (task1, LeadBackground c) \<Rightarrow>
          (case load_table w st of (st1, out) \<Rightarrow>
             (st1\<lparr>hostsTask := throttle_settle task1 out\<rparr>, settled c, [ReadHosts]))
      | (task1, Served c) \<Rightarrow> (st\<lparr>hostsTask := task1\<rparr>, settled c, [])
      | (task1, Waiting) \<Rightarrow> (st\<lparr>hostsTask := task1\<rparr>, Pending, []))"

text \<open>\<^verbatim>\<open>if (!HostsConfig) { HostsConfig = await hostsThrottle(loadHostsConfig); }\<close>\<close>

definition ensure_hosts :: "world \<Rightarrow> state \<Rightarrow> state \<times> nat promise \<times> upstream_query list" where
  "ensure_hosts w st =
     (case HostsConfig st of
        Some i \<Rightarrow> (st, Fulfilled i, [])
      | None \<Rightarrow>
          (case hostsThrottle w st of
             (st1, Fulfilled i, qs) \<Rightarrow> (st1\<lparr>HostsConfig := Some i\<rparr>, Fulfilled i, qs)
           | (st1, p, qs) \<Rightarrow> (st1, p, qs)))"

text \<open>The callback of the timer, \<^verbatim>\<open>HostsConfig = await hostsThrottle(loadHostsConfig)\<close>:
  the variable is assigned when the call is fulfilled.\<close>

definition reload_hosts :: "world \<Rightarrow> state \<Rightarrow> state \<times> upstream_query list" where
  "reload_hosts w st =
     (case hostsThrottle w st of
        (st1, Fulfilled i, qs) \<Rightarrow> (st1\<lparr>HostsConfig := Some i\<rparr>, qs)
      | (st1, p, qs) \<Rightarrow> (st1, qs))"

text \<open>The start of the throttled function: \<^verbatim>\<open>result = HostsConfig[hostname] || []\<close> and
  the fresh locals.\<close>

definition start_locals :: "state \<Rightarrow> nat \<Rightarrow> jstring \<Rightarrow> upstream_query list \<Rightarrow> locals" where
  "start_locals st i host qs =
     \<lparr>result = (case get_prop (tables st i) host of
                  Has xs \<Rightarrow> Seeded i host
                | Missing \<Rightarrow> Fresh []
                | Inherited \<Rightarrow> NotArray),
      err4 = None, err6 = None, v4updated = False, queries = qs\<rparr>"

text \<open>The function handed to the throttle, run from its start to its end with no other
  call in between. It is \<open>Pending\<close> when it has to wait in the queue of the hosts task.\<close>

definition lookup_work :: "world \<Rightarrow> jstring \<Rightarrow> nat \<Rightarrow> state \<Rightarrow> state \<times> result_array promise \<times> upstream_query list" where
  "lookup_work w host fam st =
     (case ensure_hosts w st of
        (st1, Fulfilled i, qs) \<Rightarrow>
          (let sl0 = (st1, start_locals st1 i host qs);
               sl1 = (if fam = 0 \<or> fam = 4 then updateV4 w host sl0 else sl0);
               sl2 = (if fam = 0 \<or> fam = 6 then fetchV6 w host fam sl1 else sl1)
           in (fst sl2, settled (work_outcome host fam (snd sl2)), queries (snd sl2)))
      | (st1, Rejected e, qs) \<Rightarrow> (st1, Rejected e, qs)
      | (st1, Thrown e, qs) \<Rightarrow> (st1, Rejected e, qs)
      | (st1, Pending, qs) \<Rightarrow> (st1, Pending, qs))"

subsection \<open>lookup\<close>

text \<open>A number in a template literal: its decimal digits.\<close>

fun show_nat :: "nat \<Rightarrow> jstring" where
  "show_nat n =
     (if n < 10 then [48 + n]
      else show_nat (n div 10) @ [48 + n mod 10])"

declare show_nat.simps [simp del]

text \<open>\<^verbatim>\<open>`dnsLookup:${hostname}:${family}:${all}`\<close>\<close>

definition lookup_tag :: "jstring \<Rightarrow> nat \<Rightarrow> bool \<Rightarrow> jstring" where
  "lookup_tag host fam all =
     js ''dnsLookup:'' @ host @ js '':'' @ show_nat fam @ js '':''
     @ (if all then js ''true'' else js ''false'')"

text \<open>The read of the local cache at the head of \<^verbatim>\<open>lookup\<close>: the unexpired records of
  the slot, of the requested family when one is given; \<open>None\<close> when \<^verbatim>\<open>query\<close> stays
  unset (no slot, or no such record). For an inherited name \<^verbatim>\<open>Cache[hostname]\<close> is
  truthy and \<^verbatim>\<open>Cache[hostname].filter\<close> throws a TypeError.\<close>

definition cache_read :: "CacheData \<Rightarrow> jstring \<Rightarrow> nat \<Rightarrow> int \<Rightarrow> AddressInfoDetail list option outcome" where
  "cache_read c host fam now_ms =
     (case get_prop c host of
        Missing \<Rightarrow> Inr None
      | Inherited \<Rightarrow> Inl (TypeError ''Cache[hostname].filter is not a function'')
      | Has cacheSlot \<Rightarrow>
          (let now = timestamp now_ms;
               live = filter (\<lambda>a. expireAt a > now) cacheSlot;
               addresses = (if fam \<noteq> 0 then filter (\<lambda>a. family a = fam) live else live)
           in if addresses \<noteq> [] then Inr (Some addresses) else Inr None))"

text \<open>The leader's assignment to \<^verbatim>\<open>this.cache\<close> once the throttled function has
  settled; nothing is stored while it is still pending.\<close>

definition settle_task :: "jstring \<Rightarrow> result_array ThrottleTask \<Rightarrow> result_array promise \<Rightarrow> state \<Rightarrow> state" where
  "settle_task tag task p st =
     (case p of
        Pending \<Rightarrow> st
      | Thrown e \<Rightarrow> st
      | Fulfilled v \<Rightarrow>
          st\<lparr>throttles := (throttles st)
               \<lparr>tasks := (tasks (throttles st))(tag \<mapsto> throttle_settle task (Inr v))\<rparr>\<rparr>
      | Rejected e \<Rightarrow>
          st\<lparr>throttles := (throttles st)
               \<lparr>tasks := (tasks (throttles st))(tag \<mapsto> throttle_settle task (Inl e))\<rparr>\<rparr>)"

text \<open>\<^verbatim>\<open>useThrottle(tag, DEFAULT_TTL)(async () => { ... })\<close>: get or create the task of
  the tag and call its throttle; a leader runs the function and stores its outcome.
  The queue is drained later, by \<open>throttle_drain\<close>.\<close>

definition throttled_query :: "world \<Rightarrow> jstring \<Rightarrow> nat \<Rightarrow> bool \<Rightarrow> state \<Rightarrow> state \<times> result_array promise \<times> upstream_query list" where
  "throttled_query w host fam all st =
     (let tag = lookup_tag host fam all
      in case useThrottle (throttles st) tag DEFAULT_TTL False of
           (reg1, Inl e) \<Rightarrow> (st\<lparr>throttles := reg1\<rparr>, Thrown e, [])
         | (reg1, Inr task) \<Rightarrow>
             (case throttle task (now_throttle w) (job w) of
                (task1, Lead) \<Rightarrow>
                  (case lookup_work w host fam
                          (st\<lparr>throttles := reg1\<lparr>tasks := (tasks reg1)(tag \<mapsto> task1)\<rparr>\<rparr>) of
                     (st2, p, qs) \<Rightarrow> (settle_task tag task1 p st2, p, qs))
              | (task1, LeadBackground c) \<Rightarrow>
                  (case lookup_work w host fam
                          (st\<lparr>throttles := reg1\<lparr>tasks := (tasks reg1)(tag \<mapsto> task1)\<rparr>\<rparr>) of
                     (st2, p, qs) \<Rightarrow> (settle_task tag task1 p st2, settled c, qs))
              | (task1, Served c) \<Rightarrow>
                  (st\<lparr>throttles := reg1\<lparr>tasks := (tasks reg1)(tag \<mapsto> task1)\<rparr>\<rparr>, settled c, [])
              | (task1, Waiting) \<Rightarrow>
                  (st\<lparr>throttles := reg1\<lparr>tasks := (tasks reg1)(tag \<mapsto> task1)\<rparr>\<rparr>, Pending, [])))"

text \<open>What \<^verbatim>\<open>lookup\<close> answers: one address, or with \<^verbatim>\<open>all\<close> the list of
  \<^verbatim>\<open>{ address, family }\<close>.\<close>

datatype response = Address jstring | Addresses "AddressInfo list"

definition strip :: "AddressInfoDetail \<Rightarrow> AddressInfo" where
  "strip a = \<lparr>address = address a, family = family a\<rparr>"

definition no_match_error :: "jstring \<Rightarrow> nat \<Rightarrow> nat \<Rightarrow> js_error" where
  "no_match_error host fam n =
     \<lparr>err_name = js ''Error'',
      err_message = js ''No matching IPV'' @ show_nat fam @ js '' available for '' @ host
                    @ js '', '' @ show_nat n @ js '' records in cache'',
      err_errno = None, err_code = None, err_syscall = None, err_hostname = None\<rparr>"

text \<open>The last \<^verbatim>\<open>then\<close> of the promise form: the answer for \<^verbatim>\<open>all\<close> and \<^verbatim>\<open>family\<close>;
  \<^verbatim>\<open>addresses[0].address\<close> of an empty array throws a TypeError. The callback form hands
  the same value or error to the callback.\<close>

definition shape :: "jstring \<Rightarrow> nat \<Rightarrow> bool \<Rightarrow> AddressInfo list \<Rightarrow> response outcome" where
  "shape host fam all addresses =
     (if all then
        (if fam \<noteq> 0 then Inr (Addresses (filter (\<lambda>a. family a = fam) addresses))
         else Inr (Addresses addresses))
      else if fam \<noteq> 0 then
        (case find (\<lambda>a. family a = fam) addresses of
           None \<Rightarrow> Inl (no_match_error host fam (length addresses))
         | Some a \<Rightarrow> Inr (Address (address a)))
      else
        (case addresses of
           [] \<Rightarrow> Inl (TypeError ''Cannot read properties of undefined (reading 'address')'')
         | a # _ \<Rightarrow> Inr (Address (address a))))"

definition then_shape :: "jstring \<Rightarrow> nat \<Rightarrow> bool \<Rightarrow> AddressInfoDetail list promise \<Rightarrow> response promise" where
  "then_shape host fam all q =
     (case q of
        Fulfilled addresses \<Rightarrow> settled (shape host fam all (map strip addresses))
      | Rejected e \<Rightarrow> Rejected e
      | Pending \<Rightarrow> Pending
      | Thrown e \<Rightarrow> Thrown e)"

text \<open>The first \<^verbatim>\<open>then\<close>, \<^verbatim>\<open>addresses => addresses.map(...)\<close>, reads the array the query
  was fulfilled with, as it is at that moment; a value that is not an array has no
  \<^verbatim>\<open>map\<close>.\<close>

definition read_result :: "state \<Rightarrow> result_array promise \<Rightarrow> AddressInfoDetail list promise" where
  "read_result st q =
     (case q of
        Fulfilled r \<Rightarrow>
          (case read_array st r of
             Some addresses \<Rightarrow> Fulfilled addresses
           | None \<Rightarrow> Rejected (TypeError ''addresses.map is not a function''))
      | Rejected e \<Rightarrow> Rejected e
      | Pending \<Rightarrow> Pending
      | Thrown e \<Rightarrow> Thrown e)"

text \<open>\<^verbatim>\<open>lookup(hostname, { family, all })\<close>, with \<open>fam = 0\<close> when no family is given: the
  state after the call, how the call ends, and the upstream queries it issued. A literal
  IP address is answered at once; then the local cache is tried; then the throttled
  query runs.\<close>

definition lookup :: "world \<Rightarrow> state \<Rightarrow> jstring \<Rightarrow> nat \<Rightarrow> bool \<Rightarrow> state \<times> response promise \<times> upstream_query list" where
  "lookup w st host fam all =
     (let fam0 = net_isIP w host
      in if fam0 \<noteq> 0 then
           (st, Fulfilled (if all then Addresses [\<lparr>address = host, family = fam0\<rparr>] else Address host), [])
         else
           (case cache_read (Cache st) host fam (now_cache w) of
              Inl e \<Rightarrow> (st, Thrown e, [])
            | Inr (Some addresses) \<Rightarrow> (st, then_shape host fam all (Fulfilled addresses), [])
            | Inr None \<Rightarrow>
                (case throttled_query w host fam all st of
                   (st1, q, qs) \<Rightarrow> (st1, then_shape host fam all (read_result st1 q), qs))))"

subsection \<open>Sample inputs\<close>

text \<open>The inputs of the worked examples below. \<open>sample_isIP\<close> is \<^verbatim>\<open>net.isIP\<close> on the
  strings the examples use. \<open>dns_error\<close> is the error Node's resolver rejects with:
  \<^verbatim>\<open>queryAaaa ENODATA example.test\<close> has the code \<^verbatim>\<open>ENODATA\<close> and the syscall
  \<^verbatim>\<open>queryAaaa\<close>.\<close>

definition sample_isIP :: "jstring \<Rightarrow> nat" where
  "sample_isIP s =
     (if s \<in> {js ''203.0.113.5'', js ''198.51.100.7'', js ''127.0.0.1''} then 4
      else if s \<in> {js ''2001:db8::1'', js ''2001:db8::2''} then 6
      else 0)"

definition dns_error :: "string \<Rightarrow> string \<Rightarrow> string \<Rightarrow> js_error" where
  "dns_error syscall code host =
     \<lparr>err_name = js ''Error'', err_message = js (syscall @ '' '' @ code @ '' '' @ host),
      err_errno = None, err_code = Some (js code), err_syscall = Some (js syscall),
      err_hostname = Some (js host)\<rparr>"

text \<open>A call at 1700000000 s: the hosts file holds the one line
  \<^verbatim>\<open>203.0.113.5 example.test\<close>, and both DNS queries fail with \<^verbatim>\<open>ENODATA\<close>.\<close>

definition sample_world :: world where
  "sample_world =
     \<lparr>net_isIP = sample_isIP, job = 1, job_hosts = 2,
      now_cache = 1700000000000, now_throttle = 1700000000000,
      now_hostsThrottle = 1700000000001,
      fs_readFile = Inr (js ''203.0.113.5 example.test''), now_hosts = 1700000000002,
      dns_resolve4 = Inl (dns_error ''queryA'' ''ENODATA'' ''example.test''),
      now_v4 = 1700000000040,
      dns_resolve6 = Inl (dns_error ''queryAaaa'' ''ENODATA'' ''example.test''),
      now_v6 = 1700000000030\<rparr>"

text \<open>A hosts file of three lines, the second ended by \<^verbatim>\<open>\r\n\<close>:
  \<^verbatim>\<open>203.0.113.5 example.test alias.test # note\<close>,
  \<^verbatim>\<open>gateway router.test constructor\<close> and \<^verbatim>\<open>2001:db8::1 example.test\<close>. In the first
  line the blank before \<^verbatim>\<open>alias.test\<close> is a no-break space, U+00A0.\<close>

definition sample_hosts_file :: jstring where
  "sample_hosts_file =
     js ''203.0.113.5 example.test'' @ [0xA0] @ js ''alias.test # note'' @ [0x0A] @
     js ''gateway router.test constructor'' @ [0x0D, 0x0A] @
     js ''2001:db8::1 example.test''"

text \<open>The state in which the hosts file of \<open>sample_world\<close> has been loaded, as table
  number 0, and no \<^verbatim>\<open>lookup\<close> has run yet.\<close>

definition sample_hosts_table :: CacheData where
  "sample_hosts_table =
     [js ''example.test'' \<mapsto>
        [\<lparr>address = js ''203.0.113.5'', family = 4, expireAt = 1700000010\<rparr>]]"

definition hosts_loaded :: state where
  "hosts_loaded =
     initial_state
       \<lparr>tables := (\<lambda>i. Map.empty)(0 := sample_hosts_table), n_tables := 1,
        HostsConfig := Some 0,
        hostsTask := \<lparr>interval = 10000, lastActive = 1700000000001,
                      cache = Some (Inr 0), queue = [],
                      backgroundUpdate = False\<rparr>\<rparr>"

text \<open>The name \<^verbatim>\<open>dual.test\<close> has an A record and an AAAA record, both with a ttl of 300 s,
  and no line in the hosts file; the AAAA answer arrives 900 ms after the call.\<close>

definition sample_dual_world :: world where
  "sample_dual_world =
     sample_world\<lparr>dns_resolve4 := Inr [(js ''198.51.100.7'', 300)],
                  dns_resolve6 := Inr [(js ''2001:db8::1'', 300)], now_v6 := 1700000000900\<rparr>"

text \<open>The state after \<^verbatim>\<open>lookup("dual.test", 6)\<close> at 1700000000 s followed by
  \<^verbatim>\<open>lookup("dual.test", 4)\<close> one second later.\<close>

definition cached_v6_then_v4 :: state where
  "cached_v6_then_v4 =
     fst (lookup (sample_dual_world\<lparr>now_cache := 1700000001000, now_throttle := 1700000001000,
                                    now_v4 := 1700000001040\<rparr>)
            (fst (lookup sample_dual_world hosts_loaded (js ''dual.test'') 6 False))
            (js ''dual.test'') 4 False)"



section \<open>Properties\<close>

text \<open>The defining equations used to run the model on a concrete input.\<close>

lemmas throttle_defs = throttle_def throttle_settle_def throttle_drain_def useThrottle_def
  createThrottleTask_def

lemmas hosts_defs = loadHostsConfig_def segments_of_def split_lines_def trim_def is_space_def
  split_spaces_def startsWith_hash_def add_segments_def timestamp_def MIN_TTL_SEC_def
  get_prop_def Object_prototype_names_def js_def

lemmas work_defs = lookup_work_def ensure_hosts_def hostsThrottle_def load_table_def
  start_locals_def updateV4_def fetchV6_def fetchV6_try_def fetchV6_catch_def push_result_def
  stamp_def work_outcome_def settled_def read_array_def

lemmas lookup_defs = lookup_def cache_read_def throttled_query_def settle_task_def
  lookup_tag_def then_shape_def read_result_def shape_def strip_def DEFAULT_TTL_def
  show_nat.simps

lemmas sample_defs = Let_def sample_world_def sample_isIP_def dns_error_def initial_state_def
  hosts_loaded_def sample_hosts_table_def sample_dual_world_def

text \<open>\<open>hosts_loaded\<close> is the state after the first load of the hosts file of
  \<open>sample_world\<close>: the table is number 0 of the store.\<close>

lemma sample_hosts_load:
  "ensure_hosts sample_world initial_state
     = (hosts_loaded, Fulfilled 0, [ReadHosts])"
  by (simp add: throttle_defs hosts_defs work_defs lookup_defs sample_defs)

subsection \<open>The guard of useThrottle\<close>

text \<open>
  Claim C10. For an interval below 1, \<^verbatim>\<open>useThrottle(resource, interval)\<close> throws the
  RangeError before it looks at the registry: no task is created or read, and the
  registry (its tasks and its timer) is returned as it was.
\<close>

theorem useThrottle_small_interval_throws:
  "ival < 1 \<Longrightarrow> useThrottle reg resource ival bg = (reg, Inl RangeError)"
  by (simp add: useThrottle_def)

theorem useThrottle_small_interval_throws_witness:
  "(0::real) < 1 \<and>
   useThrottle (throttles initial_state) (js ''dnsLookup:example.test:0:false'') 0 False
     = (throttles initial_state, Inl RangeError) \<and>
   err_name RangeError = js ''RangeError''"
  using useThrottle_small_interval_throws
    [of 0 "throttles initial_state" "js ''dnsLookup:example.test:0:false''" False]
  by (simp add: RangeError_def)

subsection \<open>A cached outcome is served again\<close>

text \<open>
  Claim C4. A call of the throttle of any task that holds a cached outcome, made less
  than \<open>interval\<close> after the task last had a leader, settles with that outcome, does not
  invoke the work (the call is \<open>Served\<close>, not \<open>Lead\<close>) and leaves the task as it was.
  The outcome \<open>c\<close> is any outcome: a cached failure \<open>Inl e\<close> is served as the same
  \<open>Inl e\<close>, with no retry.
\<close>

theorem throttle_serves_cached_outcome:
  assumes "cache task = Some c" and "of_int (now - lastActive task) < interval task"
  shows "throttle task now j = (task, Served c)"
  using assms by (simp add: throttle_def)

theorem throttle_serves_cached_outcome_witness:
  "cache \<lparr>interval = 10000, lastActive = 1700000000000,
          cache = Some (Inl (dns_error ''queryA'' ''ENODATA'' ''example.test'')),
          queue = [], backgroundUpdate = False\<rparr>
     = Some (Inl (dns_error ''queryA'' ''ENODATA'' ''example.test'') :: AddressInfoDetail list outcome) \<and>
   of_int (1700000004000 - 1700000000000) < (10000::real) \<and>
   throttle \<lparr>interval = 10000, lastActive = 1700000000000,
          cache = Some (Inl (dns_error ''queryA'' ''ENODATA'' ''example.test'')),
          queue = [], backgroundUpdate = False\<rparr> 1700000004000 7
     = (\<lparr>interval = 10000, lastActive = 1700000000000,
          cache = Some (Inl (dns_error ''queryA'' ''ENODATA'' ''example.test'')),
          queue = [], backgroundUpdate = False\<rparr>,
        Served (Inl (dns_error ''queryA'' ''ENODATA'' ''example.test'') :: AddressInfoDetail list outcome))"
  using throttle_serves_cached_outcome
    [of "\<lparr>interval = 10000, lastActive = 1700000000000,
          cache = Some (Inl (dns_error ''queryA'' ''ENODATA'' ''example.test'')),
          queue = [], backgroundUpdate = False\<rparr>"
        "Inl (dns_error ''queryA'' ''ENODATA'' ''example.test'') :: AddressInfoDetail list outcome"
        1700000004000 7]
  by simp

subsection \<open>One leader per tag\<close>







text \<open>The same two cases seen from \<^verbatim>\<open>lookup\<close>: a call whose tag has a task that was led
  less than \<open>interval\<close> ago is served the stored outcome, or is left pending in the
  queue when there is none yet; it issues no upstream query.\<close>

lemma throttled_query_served:
  assumes "tasks (throttles st) (lookup_tag host fam all) = Some task"
    and "cache task = Some c"
    and "of_int (now_throttle w - lastActive task) < interval task"
  shows "throttled_query w host fam all st
           = (st\<lparr>throttles := (throttles st)\<lparr>gcTimer := True\<rparr>\<rparr>, settled c, [])"
  using assms
  by (simp add: throttled_query_def useThrottle_def throttle_def DEFAULT_TTL_def MIN_TTL_SEC_def
      Let_def map_upd_triv)

lemma throttled_query_waits:
  assumes "tasks (throttles st) (lookup_tag host fam all) = Some task"
    and "cache task = None"
    and "of_int (now_throttle w - lastActive task) < interval task"
  shows "throttled_query w host fam all st
           = (st\<lparr>throttles := (throttles st)
                   \<lparr>gcTimer := True,
                    tasks := (tasks (throttles st))
                      (lookup_tag host fam all \<mapsto> task\<lparr>queue := queue task @ [job w]\<rparr>)\<rparr>\<rparr>,
              Pending, [])"
  using assms
  by (simp add: throttled_query_def useThrottle_def throttle_def DEFAULT_TTL_def MIN_TTL_SEC_def
      Let_def)

lemma lookup_waits:
  assumes "net_isIP w host = 0"
    and "cache_read (Cache st) host fam (now_cache w) = Inr None"
    and "tasks (throttles st) (lookup_tag host fam all) = Some task"
    and "cache task = None"
    and "of_int (now_throttle w - lastActive task) < interval task"
  shows "lookup w st host fam all
           = (st\<lparr>throttles := (throttles st)
                   \<lparr>gcTimer := True,
                    tasks := (tasks (throttles st))
                      (lookup_tag host fam all \<mapsto> task\<lparr>queue := queue task @ [job w]\<rparr>)\<rparr>\<rparr>,
              Pending, [])"
  using assms(1,2) throttled_query_waits [OF assms(3-5)]
  by (simp add: lookup_def then_shape_def read_result_def)

subsection \<open>Loading the hosts file\<close>

lemma add_hostnames_no_address:
  "isIP addr = 0 \<Longrightarrow> add_hostnames isIP e addr hosts configs = Inr configs"
  by (induction hosts) simp_all

lemma add_segments_no_address:
  "\<not> has_ip_address isIP segments \<Longrightarrow> add_segments isIP e configs segments = Inr configs"
  by (cases segments) (simp_all add: add_segments_def has_ip_address_def add_hostnames_no_address)

lemma reduce_segments_filter:
  "reduce_segments isIP e configs (filter (has_ip_address isIP) lines)
     = reduce_segments isIP e configs lines"
  by (induction lines arbitrary: configs)
     (simp_all add: add_segments_no_address split: sum.splits)

lemma stamped_push:
  assumes "stamped isIP e configs" and "isIP addr \<noteq> 0"
    and "configs host = Some l \<or> (configs host = None \<and> l = [])"
  shows "stamped isIP e
           (configs(host \<mapsto> l @ [\<lparr>address = addr, family = isIP addr, expireAt = e\<rparr>]))"
  using assms unfolding stamped_def
  by (auto split: if_splits)

lemma add_hostnames_stamped:
  "stamped isIP e configs \<Longrightarrow> add_hostnames isIP e addr hosts configs = Inr table
     \<Longrightarrow> stamped isIP e table"
proof (induction hosts arbitrary: configs)
  case Nil
  then show ?case by simp
next
  case (Cons host rest)
  show ?case
  proof (cases "startsWith_hash host \<or> isIP addr = 0")
    case True
    with Cons show ?thesis by (auto split: if_splits)
  next
    case False
    let ?r = "\<lparr>address = addr, family = isIP addr, expireAt = e\<rparr>"
    show ?thesis
    proof (cases "get_prop configs host")
      case (Has l)
      then have "configs host = Some l"
        by (auto simp: get_prop_def split: option.splits if_splits)
      then have "stamped isIP e (configs(host \<mapsto> l @ [?r]))"
        using Cons.prems(1) False by (intro stamped_push) simp_all
      moreover have "add_hostnames isIP e addr rest (configs(host \<mapsto> l @ [?r])) = Inr table"
        using Cons.prems(2) False Has by simp
      ultimately show ?thesis by (rule Cons.IH)
    next
      case Missing
      then have "configs host = None"
        by (auto simp: get_prop_def split: option.splits if_splits)
      then have "stamped isIP e (configs(host \<mapsto> [] @ [?r]))"
        using Cons.prems(1) False by (intro stamped_push) simp_all
      moreover have "add_hostnames isIP e addr rest (configs(host \<mapsto> [] @ [?r])) = Inr table"
        using Cons.prems(2) False Missing by simp
      ultimately show ?thesis by (rule Cons.IH)
    next
      case Inherited
      with Cons.prems(2) False show ?thesis by simp
    qed
  qed
qed

lemma reduce_segments_stamped:
  "stamped isIP e configs \<Longrightarrow> reduce_segments isIP e configs lines = Inr table
     \<Longrightarrow> stamped isIP e table"
proof (induction lines arbitrary: configs)
  case Nil
  then show ?case by simp
next
  case (Cons segments rest)
  from Cons.prems(2) obtain configs1
    where step: "add_segments isIP e configs segments = Inr configs1"
      and rest: "reduce_segments isIP e configs1 rest = Inr table"
    by (auto split: sum.splits)
  have "stamped isIP e configs1"
    using Cons.prems(1) step
    by (cases segments) (auto simp: add_segments_def dest: add_hostnames_stamped)
  then show ?case using rest by (rule Cons.IH)
qed

text \<open>
  Claim C9. What \<^verbatim>\<open>loadHostsConfig\<close> makes of a file, the table or the TypeError of an
  alias that is an inherited property name, is what it makes of only those of its lines
  whose first segment is an IP literal: a line with any other first segment adds
  nothing, and throws nothing. Every record of a table it returns expires at the one
  time \<open>timestamp now_ms + 10\<close> (\<open>MIN_TTL_SEC\<close> is 10), the clock being read once, after
  the file, and carries an IP literal.
\<close>

theorem loadHostsConfig_skips_and_stamps:
  "loadHostsConfig isIP now_ms hostFile
     = reduce_segments isIP (timestamp now_ms + MIN_TTL_SEC) Map.empty
         (filter (has_ip_address isIP) (segments_of hostFile)) \<and>
   (\<forall>table host recs r.
      loadHostsConfig isIP now_ms hostFile = Inr table \<longrightarrow>
      table host = Some recs \<longrightarrow> r \<in> set recs \<longrightarrow>
      expireAt r = timestamp now_ms + 10 \<and> isIP (address r) \<noteq> 0)"
proof -
  let ?e = "timestamp now_ms + MIN_TTL_SEC"
  have "stamped isIP ?e Map.empty" by (simp add: stamped_def)
  then have "stamped isIP ?e table"
    if "reduce_segments isIP ?e Map.empty (segments_of hostFile) = Inr table" for table
    using that by (rule reduce_segments_stamped)
  then show ?thesis
    unfolding stamped_def loadHostsConfig_def Let_def
    by (auto simp: reduce_segments_filter MIN_TTL_SEC_def)
qed

text \<open>On the sample file: the line \<^verbatim>\<open>gateway router.test constructor\<close> leaves no trace
  and throws nothing, the no-break space separates two hostnames, the alias after \<^verbatim>\<open>#\<close>
  is not read, and the records of both other lines expire at 1700000010.\<close>

theorem loadHostsConfig_skips_and_stamps_witness:
  "(\<exists>table.
      loadHostsConfig sample_isIP 1700000000002 sample_hosts_file = Inr table \<and>
      table (js ''example.test'')
        = Some [\<lparr>address = js ''203.0.113.5'', family = 4, expireAt = 1700000010\<rparr>,
                \<lparr>address = js ''2001:db8::1'', family = 6, expireAt = 1700000010\<rparr>] \<and>
      table (js ''alias.test'')
        = Some [\<lparr>address = js ''203.0.113.5'', family = 4, expireAt = 1700000010\<rparr>] \<and>
      table (js ''router.test'') = None \<and>
      table (js ''constructor'') = None \<and>
      table (js ''note'') = None) \<and>
   \<lparr>address = js ''2001:db8::1'', family = 6, expireAt = 1700000010\<rparr>
     \<in> set [\<lparr>address = js ''203.0.113.5'', family = 4, expireAt = 1700000010\<rparr>,
             \<lparr>address = js ''2001:db8::1'', family = 6, expireAt = 1700000010\<rparr>] \<and>
   expireAt \<lparr>address = js ''2001:db8::1'', family = 6, expireAt = 1700000010\<rparr>
     = timestamp 1700000000002 + 10 \<and>
   sample_isIP (js ''2001:db8::1'') \<noteq> 0 \<and>
   filter (has_ip_address sample_isIP) (segments_of sample_hosts_file)
     = [[js ''203.0.113.5'', js ''example.test'', js ''alias.test'', js ''#'', js ''note''],
        [js ''2001:db8::1'', js ''example.test'']]"
  using loadHostsConfig_skips_and_stamps [of sample_isIP 1700000000002 sample_hosts_file]
  by (simp add: hosts_defs sample_isIP_def has_ip_address_def sample_hosts_file_def)

text \<open>A line with an IP literal and an alias that is an inherited name makes the load
  throw; so does no line without an IP literal.\<close>

lemma loadHostsConfig_inherited_alias:
  "loadHostsConfig sample_isIP 1700000000002 (js ''203.0.113.5 constructor'')
     = Inl (TypeError ''(configs[hostname] || (intermediate value)).push is not a function'') \<and>
   loadHostsConfig sample_isIP 1700000000002 (js ''gateway constructor'') = Inr Map.empty"
  by (simp add: hosts_defs sample_isIP_def)

subsection \<open>Answers from the local cache\<close>

lemma cache_read_Some:
  assumes "Cache st host = Some cacheSlot" and "a \<in> set cacheSlot"
    and "expireAt a > timestamp (now_cache w)" and "fam = 0 \<or> family a = fam"
  shows "\<exists>addresses. cache_read (Cache st) host fam (now_cache w) = Inr (Some addresses)"
proof -
  let ?live = "filter (\<lambda>a. expireAt a > timestamp (now_cache w)) cacheSlot"
  have "a \<in> set ?live" using assms by simp
  moreover have "fam \<noteq> 0 \<Longrightarrow> a \<in> set (filter (\<lambda>a. family a = fam) ?live)"
    using assms by simp
  ultimately show ?thesis
    using assms(1) by (auto simp: cache_read_def get_prop_def Let_def filter_empty_conv)
qed

lemma cache_read_props:
  assumes "cache_read c host fam now_ms = Inr (Some addresses)"
  shows "addresses \<noteq> [] \<and> (fam \<noteq> 0 \<longrightarrow> list_all (\<lambda>a. family a = fam) addresses)"
  using assms
  by (auto simp: cache_read_def Let_def list_all_iff split: property.splits if_splits)

lemma shape_cached_fulfils:
  assumes "addresses \<noteq> []" and "fam \<noteq> 0 \<longrightarrow> list_all (\<lambda>a. family a = fam) addresses"
  shows "\<exists>resp. shape host fam all (map strip addresses) = Inr resp"
proof (cases addresses)
  case Nil
  with assms show ?thesis by simp
next
  case (Cons a rest)
  with assms show ?thesis
    by (auto simp: shape_def strip_def)
qed

text \<open>
  Claim C8. When the cache slot of the hostname holds a record that has not expired
  and is of the requested family (of any family when none is requested), \<^verbatim>\<open>lookup\<close>
  is fulfilled, issues no upstream query, and leaves the whole state as it was: no
  cache slot and no throttle task is touched. For a hostname that is not an IP literal
  the answer is shaped from the records read from the cache.
\<close>

theorem lookup_cache_hit:
  assumes "Cache st host = Some cacheSlot" and "a \<in> set cacheSlot"
    and "expireAt a > timestamp (now_cache w)" and "fam = 0 \<or> family a = fam"
  shows "(\<exists>resp. lookup w st host fam all = (st, Fulfilled resp, [])) \<and>
         (net_isIP w host = 0 \<longrightarrow>
            (\<exists>addresses. cache_read (Cache st) host fam (now_cache w) = Inr (Some addresses) \<and>
               lookup w st host fam all
                 = (st, settled (shape host fam all (map strip addresses)), [])))"
proof -
  obtain addresses where rd: "cache_read (Cache st) host fam (now_cache w) = Inr (Some addresses)"
    using cache_read_Some [OF assms] by blast
  from cache_read_props [OF rd] shape_cached_fulfils
  obtain resp where sh: "shape host fam all (map strip addresses) = Inr resp"
    by blast
  show ?thesis
  proof (cases "net_isIP w host = 0")
    case True
    with rd sh show ?thesis
      by (simp add: lookup_def then_shape_def settled_def)
  next
    case False
    then show ?thesis
      by (simp add: lookup_def Let_def)
  qed
qed

text \<open>With the A record of \<^verbatim>\<open>example.test\<close> cached until 1700000060, a request for
  family 4 at 1700000000 is answered from the cache, although both DNS queries of
  \<open>sample_world\<close> would fail.\<close>

theorem lookup_cache_hit_witness:
  "Cache (hosts_loaded\<lparr>Cache := [(js ''example.test'') \<mapsto>
             [\<lparr>address = js ''203.0.113.5'', family = 4, expireAt = 1700000060\<rparr>]]\<rparr>) (js ''example.test'')
     = Some [\<lparr>address = js ''203.0.113.5'', family = 4, expireAt = 1700000060\<rparr>] \<and>
   \<lparr>address = js ''203.0.113.5'', family = 4, expireAt = 1700000060\<rparr>
     \<in> set [\<lparr>address = js ''203.0.113.5'', family = 4, expireAt = 1700000060\<rparr>] \<and>
   expireAt \<lparr>address = js ''203.0.113.5'', family = 4, expireAt = 1700000060\<rparr>
     > timestamp (now_cache sample_world) \<and>
   family \<lparr>address = js ''203.0.113.5'', family = 4, expireAt = 1700000060\<rparr> = 4 \<and>
   net_isIP sample_world (js ''example.test'') = 0 \<and>
   lookup sample_world
       (hosts_loaded\<lparr>Cache := [(js ''example.test'') \<mapsto>
             [\<lparr>address = js ''203.0.113.5'', family = 4, expireAt = 1700000060\<rparr>]]\<rparr>)
       (js ''example.test'') 4 False
     = (hosts_loaded\<lparr>Cache := [(js ''example.test'') \<mapsto>
             [\<lparr>address = js ''203.0.113.5'', family = 4, expireAt = 1700000060\<rparr>]]\<rparr>,
        Fulfilled (Address (js ''203.0.113.5'')), [])"
  using lookup_cache_hit
    [of "hosts_loaded\<lparr>Cache := [(js ''example.test'') \<mapsto>
             [\<lparr>address = js ''203.0.113.5'', family = 4, expireAt = 1700000060\<rparr>]]\<rparr>"
        "js ''example.test''"
        "[\<lparr>address = js ''203.0.113.5'', family = 4, expireAt = 1700000060\<rparr>]"
        "\<lparr>address = js ''203.0.113.5'', family = 4, expireAt = 1700000060\<rparr>"
        sample_world 4 False]
  by (simp add: hosts_defs lookup_defs sample_defs settled_def)

subsection \<open>Which cached address answers a request for any family\<close>

text \<open>
  Claim C6 says that, with unexpired records of both families in the cache, a request
  for any family and one address is answered with the IPv4 address. It is not in the
  state \<open>cached_v6_then_v4\<close>: the slot holds the AAAA record, cached first, and then
  the A record, appended by \<^verbatim>\<open>updateV4\<close>; both are unexpired at 1700000002 s, and the
  answer is the IPv6 address.
\<close>

theorem cached_ipv6_answers_first:
  "Cache cached_v6_then_v4 (js ''dual.test'')
     = Some [\<lparr>address = js ''2001:db8::1'', family = 6, expireAt = 1700000300\<rparr>,
             \<lparr>address = js ''198.51.100.7'', family = 4, expireAt = 1700000301\<rparr>] \<and>
   timestamp 1700000002000 < 1700000300 \<and>
   lookup (sample_dual_world\<lparr>now_cache := 1700000002000\<rparr>) cached_v6_then_v4 (js ''dual.test'') 0 False
     = (cached_v6_then_v4, Fulfilled (Address (js ''2001:db8::1'')), [])"
  by (simp add: throttle_defs hosts_defs work_defs lookup_defs sample_defs cached_v6_then_v4_def)

text \<open>
  Claim C6, amended. With no family requested and \<^verbatim>\<open>all\<close> unset, a hostname whose
  cache slot holds an unexpired record is answered with the address of the first
  unexpired record of the slot, in the order of the slot and whatever its family.
\<close>

theorem lookup_any_family_first_live:
  assumes "net_isIP w host = 0" and "Cache st host = Some cacheSlot"
    and "filter (\<lambda>a. expireAt a > timestamp (now_cache w)) cacheSlot = a # rest"
  shows "lookup w st host 0 False = (st, Fulfilled (Address (address a)), [])"
  using assms
  by (simp add: lookup_def cache_read_def get_prop_def Let_def then_shape_def settled_def shape_def
      strip_def)

text \<open>A slot whose first unexpired record is of family 4 (an expired AAAA record stands
  before it) gives the IPv4 address.\<close>

theorem lookup_any_family_first_live_witness:
  "net_isIP sample_world (js ''dual.test'') = 0 \<and>
   Cache (hosts_loaded\<lparr>Cache := [(js ''dual.test'') \<mapsto>
             [\<lparr>address = js ''2001:db8::2'', family = 6, expireAt = 1699990000\<rparr>,
              \<lparr>address = js ''198.51.100.7'', family = 4, expireAt = 1700000300\<rparr>,
              \<lparr>address = js ''2001:db8::1'', family = 6, expireAt = 1700000300\<rparr>]]\<rparr>) (js ''dual.test'')
     = Some [\<lparr>address = js ''2001:db8::2'', family = 6, expireAt = 1699990000\<rparr>,
             \<lparr>address = js ''198.51.100.7'', family = 4, expireAt = 1700000300\<rparr>,
             \<lparr>address = js ''2001:db8::1'', family = 6, expireAt = 1700000300\<rparr>] \<and>
   filter (\<lambda>a. expireAt a > timestamp (now_cache sample_world))
       [\<lparr>address = js ''2001:db8::2'', family = 6, expireAt = 1699990000\<rparr>,
        \<lparr>address = js ''198.51.100.7'', family = 4, expireAt = 1700000300\<rparr>,
        \<lparr>address = js ''2001:db8::1'', family = 6, expireAt = 1700000300\<rparr>]
     = [\<lparr>address = js ''198.51.100.7'', family = 4, expireAt = 1700000300\<rparr>,
        \<lparr>address = js ''2001:db8::1'', family = 6, expireAt = 1700000300\<rparr>] \<and>
   lookup sample_world
       (hosts_loaded\<lparr>Cache := [(js ''dual.test'') \<mapsto>
             [\<lparr>address = js ''2001:db8::2'', family = 6, expireAt = 1699990000\<rparr>,
              \<lparr>address = js ''198.51.100.7'', family = 4, expireAt = 1700000300\<rparr>,
              \<lparr>address = js ''2001:db8::1'', family = 6, expireAt = 1700000300\<rparr>]]\<rparr>)
       (js ''dual.test'') 0 False
     = (hosts_loaded\<lparr>Cache := [(js ''dual.test'') \<mapsto>
             [\<lparr>address = js ''2001:db8::2'', family = 6, expireAt = 1699990000\<rparr>,
              \<lparr>address = js ''198.51.100.7'', family = 4, expireAt = 1700000300\<rparr>,
              \<lparr>address = js ''2001:db8::1'', family = 6, expireAt = 1700000300\<rparr>]]\<rparr>,
        Fulfilled (Address (js ''198.51.100.7'')), [])"
  using lookup_any_family_first_live
    [of sample_world "js ''dual.test''"
        "hosts_loaded\<lparr>Cache := [(js ''dual.test'') \<mapsto>
             [\<lparr>address = js ''2001:db8::2'', family = 6, expireAt = 1699990000\<rparr>,
              \<lparr>address = js ''198.51.100.7'', family = 4, expireAt = 1700000300\<rparr>,
              \<lparr>address = js ''2001:db8::1'', family = 6, expireAt = 1700000300\<rparr>]]\<rparr>"
        "[\<lparr>address = js ''2001:db8::2'', family = 6, expireAt = 1699990000\<rparr>,
          \<lparr>address = js ''198.51.100.7'', family = 4, expireAt = 1700000300\<rparr>,
          \<lparr>address = js ''2001:db8::1'', family = 6, expireAt = 1700000300\<rparr>]"
        "\<lparr>address = js ''198.51.100.7'', family = 4, expireAt = 1700000300\<rparr>"
        "[\<lparr>address = js ''2001:db8::1'', family = 6, expireAt = 1700000300\<rparr>]"]
  by (simp add: hosts_defs sample_defs)

subsection \<open>Both families fail\<close>

lemma load_table_throttles:
  "load_table w (st\<lparr>throttles := r\<rparr>)
     = (case load_table w st of (s, out) \<Rightarrow> (s\<lparr>throttles := r\<rparr>, out))"
  by (simp add: load_table_def split: sum.splits)

lemma hostsThrottle_throttles:
  "hostsThrottle w (st\<lparr>throttles := r\<rparr>)
     = (case hostsThrottle w st of (s, p, qs) \<Rightarrow> (s\<lparr>throttles := r\<rparr>, p, qs))"
proof -
  obtain task1 res
    where t: "throttle (hostsTask st) (now_hostsThrottle w) (job_hosts w) = (task1, res)"
    by (cases "throttle (hostsTask st) (now_hostsThrottle w) (job_hosts w)")
  obtain s out where l: "load_table w st = (s, out)"
    by (cases "load_table w st")
  show ?thesis
    by (cases res) (simp_all add: hostsThrottle_def t l load_table_throttles)
qed

lemma ensure_hosts_throttles:
  "ensure_hosts w (st\<lparr>throttles := r\<rparr>)
     = (case ensure_hosts w st of (s, p, qs) \<Rightarrow> (s\<lparr>throttles := r\<rparr>, p, qs))"
proof (cases "HostsConfig st")
  case None
  obtain s p qs where h: "hostsThrottle w st = (s, p, qs)"
    by (cases "hostsThrottle w st")
  show ?thesis
    using None by (cases p) (simp_all add: ensure_hosts_def hostsThrottle_throttles h)
next
  case (Some i)
  then show ?thesis by (simp add: ensure_hosts_def)
qed

lemma lookup_work_both_fail:
  assumes "ensure_hosts w st = (st1, Fulfilled i, qs)"
    and "dns_resolve4 w = Inl e4" and "dns_resolve6 w = Inl e6"
  shows "lookup_work w host 0 st
           = (st1, Rejected (no_data_error host), qs @ [QueryA host, QueryAaaa host])"
  using assms
  by (simp add: lookup_work_def Let_def updateV4_def fetchV6_def fetchV6_try_def
      fetchV6_catch_def work_outcome_def settled_def start_locals_def)

lemma lookup_leader:
  assumes "net_isIP w host = 0"
    and "cache_read (Cache st) host fam (now_cache w) = Inr None"
    and "useThrottle (throttles st) (lookup_tag host fam all) DEFAULT_TTL False = (reg1, Inr task)"
    and "throttle task (now_throttle w) (job w) = (task1, Lead)"
  shows "lookup w st host fam all
           = (case lookup_work w host fam
                     (st\<lparr>throttles := reg1\<lparr>tasks := (tasks reg1)(lookup_tag host fam all \<mapsto> task1)\<rparr>\<rparr>) of
                (st2, p, qs) \<Rightarrow>
                  (settle_task (lookup_tag host fam all) task1 p st2,
                   then_shape host fam all (read_result (settle_task (lookup_tag host fam all) task1 p st2) p),
                   qs))"
  using assms
  by (simp add: lookup_def throttled_query_def Let_def split: prod.splits)

text \<open>
  Claim C7. Take a call of \<^verbatim>\<open>lookup\<close> with no family that runs its queries: the
  hostname is not an IP literal, the read of the cache returns and finds no unexpired
  record (for an inherited property name that read throws, see below), the call is the
  leader of its tag, and the hosts table is there (\<open>ensure_hosts\<close> is fulfilled). If the A
  query fails with \<open>e4\<close> and the AAAA query with \<open>e6\<close>, both queries having been
  issued, the call is rejected with the one error \<open>no_data_error host\<close>. That error is
  built from the hostname alone: its message ends with the hostname, its code is
  \<^verbatim>\<open>ENODATA\<close>, its \<^verbatim>\<open>hostname\<close> is the hostname, its \<^verbatim>\<open>errno\<close> and \<^verbatim>\<open>syscall\<close> are
  \<^verbatim>\<open>undefined\<close>; it is the same whatever \<open>e4\<close> and \<open>e6\<close> are, and it differs from each
  of them that names its syscall, as the errors of the resolver do.
\<close>

theorem both_families_fail_no_data:
  assumes "net_isIP w host = 0"
    and "cache_read (Cache st) host 0 (now_cache w) = Inr None"
    and "useThrottle (throttles st) (lookup_tag host 0 all) DEFAULT_TTL False = (reg1, Inr task)"
    and "throttle task (now_throttle w) (job w) = (task1, Lead)"
    and "ensure_hosts w st = (st1, Fulfilled i, qs)"
    and "dns_resolve4 w = Inl e4" and "dns_resolve6 w = Inl e6"
  shows "fst (snd (lookup w st host 0 all)) = Rejected (no_data_error host) \<and>
         snd (snd (lookup w st host 0 all)) = qs @ [QueryA host, QueryAaaa host] \<and>
         err_message (no_data_error host) = js ''queryA and queryAaaa ENODATA '' @ host \<and>
         err_code (no_data_error host) = Some (js ''ENODATA'') \<and>
         err_hostname (no_data_error host) = Some host \<and>
         err_errno (no_data_error host) = None \<and>
         err_syscall (no_data_error host) = None \<and>
         (err_syscall e4 \<noteq> None \<longrightarrow> no_data_error host \<noteq> e4) \<and>
         (err_syscall e6 \<noteq> None \<longrightarrow> no_data_error host \<noteq> e6)"
proof -
  let ?tag = "lookup_tag host 0 all"
  let ?st = "st\<lparr>throttles := reg1\<lparr>tasks := (tasks reg1)(?tag \<mapsto> task1)\<rparr>\<rparr>"
  have "ensure_hosts w ?st
      = (st1\<lparr>throttles := reg1\<lparr>tasks := (tasks reg1)(?tag \<mapsto> task1)\<rparr>\<rparr>, Fulfilled i, qs)"
    using assms(5) by (simp add: ensure_hosts_throttles)
  then have "lookup_work w host 0 ?st
      = (st1\<lparr>throttles := reg1\<lparr>tasks := (tasks reg1)(?tag \<mapsto> task1)\<rparr>\<rparr>,
         Rejected (no_data_error host), qs @ [QueryA host, QueryAaaa host])"
    using assms(6,7) by (rule lookup_work_both_fail)
  then have "lookup w st host 0 all
      = (settle_task ?tag task1 (Rejected (no_data_error host))
           (st1\<lparr>throttles := reg1\<lparr>tasks := (tasks reg1)(?tag \<mapsto> task1)\<rparr>\<rparr>),
         Rejected (no_data_error host), qs @ [QueryA host, QueryAaaa host])"
    using lookup_leader [OF assms(1-4)] by (simp add: then_shape_def read_result_def)
  then show ?thesis
    by (auto simp: no_data_error_def)
qed

text \<open>In \<open>sample_world\<close> both queries for \<^verbatim>\<open>example.test\<close> fail with \<^verbatim>\<open>ENODATA\<close>; the hosts
  record of the name does not prevent the error.\<close>

theorem both_families_fail_no_data_witness:
  "net_isIP sample_world (js ''example.test'') = 0 \<and>
   cache_read (Cache hosts_loaded) (js ''example.test'') 0 (now_cache sample_world) = Inr None \<and>
   useThrottle (throttles hosts_loaded) (lookup_tag (js ''example.test'') 0 False) DEFAULT_TTL False
     = (\<lparr>gcTimer = True,
         tasks = [lookup_tag (js ''example.test'') 0 False \<mapsto> createThrottleTask DEFAULT_TTL False]\<rparr>,
        Inr (createThrottleTask DEFAULT_TTL False)) \<and>
   throttle (createThrottleTask DEFAULT_TTL False :: AddressInfoDetail list ThrottleTask)
       (now_throttle sample_world) (job sample_world)
     = (\<lparr>interval = 10000, lastActive = 1700000000000, cache = None, queue = [],
         backgroundUpdate = False\<rparr>, Lead) \<and>
   ensure_hosts sample_world hosts_loaded = (hosts_loaded, Fulfilled 0, []) \<and>
   dns_resolve4 sample_world = Inl (dns_error ''queryA'' ''ENODATA'' ''example.test'') \<and>
   dns_resolve6 sample_world = Inl (dns_error ''queryAaaa'' ''ENODATA'' ''example.test'') \<and>
   fst (snd (lookup sample_world hosts_loaded (js ''example.test'') 0 False))
     = Rejected (no_data_error (js ''example.test'')) \<and>
   snd (snd (lookup sample_world hosts_loaded (js ''example.test'') 0 False))
     = [QueryA (js ''example.test''), QueryAaaa (js ''example.test'')] \<and>
   no_data_error (js ''example.test'') \<noteq> dns_error ''queryA'' ''ENODATA'' ''example.test'' \<and>
   no_data_error (js ''example.test'') \<noteq> dns_error ''queryAaaa'' ''ENODATA'' ''example.test''"
  using both_families_fail_no_data
    [of sample_world "js ''example.test''" hosts_loaded False
        "\<lparr>gcTimer = True,
          tasks = [lookup_tag (js ''example.test'') 0 False \<mapsto> createThrottleTask DEFAULT_TTL False]\<rparr>"
        "createThrottleTask DEFAULT_TTL False"
        "\<lparr>interval = 10000, lastActive = 1700000000000, cache = None, queue = [],
          backgroundUpdate = False\<rparr>"
        hosts_loaded 0 "[]"
        "dns_error ''queryA'' ''ENODATA'' ''example.test''"
        "dns_error ''queryAaaa'' ''ENODATA'' ''example.test''"]
  by (simp add: throttle_defs hosts_defs work_defs lookup_defs sample_defs no_data_error_def)

text \<open>A hostname that is an inherited property name never gets that far: the read of
  the cache throws, before any throttle or query.\<close>

lemma lookup_inherited_name_throws:
  assumes "net_isIP w host = 0" and "Cache st host = None"
    and "host \<in> set Object_prototype_names"
  shows "lookup w st host fam all
           = (st, Thrown (TypeError ''Cache[hostname].filter is not a function''), [])"
  using assms by (simp add: lookup_def cache_read_def get_prop_def)

lemma lookup_constructor_throws:
  "lookup sample_world hosts_loaded (js ''constructor'') 0 False
     = (hosts_loaded, Thrown (TypeError ''Cache[hostname].filter is not a function''), [])"
  by (simp add: hosts_defs lookup_defs sample_defs)

subsection \<open>The stored outcome shares the array of the hosts table\<close>

text \<open>
  Three calls for \<^verbatim>\<open>example.test\<close>, which has a record in the hosts table. The first, for
  any family with \<^verbatim>\<open>all\<close>, leads its tag: the A query answers with a ttl of 1 s, the AAAA
  query fails, and the task stores \<^verbatim>\<open>result\<close>, the array of the hosts table, then of two
  records. Two seconds later a call for family 6 gets an AAAA record and pushes it onto
  the same array. One second later the first call is repeated: the A record has expired,
  the task serves its stored outcome, and the answer has three records.
\<close>

lemma served_outcome_sees_later_pushes:
  "fst (snd (lookup (sample_world\<lparr>dns_resolve4 := Inr [(js ''203.0.113.5'', 1)]\<rparr>)
               hosts_loaded (js ''example.test'') 0 True))
     = Fulfilled (Addresses [\<lparr>address = js ''203.0.113.5'', family = 4\<rparr>,
                             \<lparr>address = js ''203.0.113.5'', family = 4\<rparr>]) \<and>
   snd (lookup (sample_world\<lparr>now_cache := 1700000003000, now_throttle := 1700000003000\<rparr>)
     (fst (lookup (sample_world\<lparr>dns_resolve6 := Inr [(js ''2001:db8::1'', 300)],
                                now_cache := 1700000002000, now_throttle := 1700000002000,
                                now_v6 := 1700000002030\<rparr>)
             (fst (lookup (sample_world\<lparr>dns_resolve4 := Inr [(js ''203.0.113.5'', 1)]\<rparr>)
                     hosts_loaded (js ''example.test'') 0 True))
             (js ''example.test'') 6 True))
     (js ''example.test'') 0 True)
     = (Fulfilled (Addresses [\<lparr>address = js ''203.0.113.5'', family = 4\<rparr>,
                              \<lparr>address = js ''203.0.113.5'', family = 4\<rparr>,
                              \<lparr>address = js ''2001:db8::1'', family = 6\<rparr>]),
        [])"
  by (simp add: throttle_defs hosts_defs work_defs lookup_defs sample_defs)

subsection \<open>The expiration of a fetched record\<close>

text \<open>What \<open>stamp\<close> computes, for any record and any time.\<close>

lemma family_stamp [simp]: "family (stamp fam now r) = fam"
  by (cases r) (simp add: stamp_def)

lemma stamp_expireAt: "expireAt (stamp fam now (addr, ttl)) = max (ttl + now) 10"
  by (simp add: stamp_def MIN_TTL_SEC_def)

text \<open>
  Claim C5 says a fetched record expires at \<open>now + max ttl 10\<close>. The source computes
  \<^verbatim>\<open>Math.max(ttl + now, MIN_TTL_SEC)\<close>, which is \<open>ttl + now\<close> at any time after 1970: an
  A record with a ttl of 3 s fetched at 1700000000 s is stamped 1700000003, not
  1700000010, is cached with that stamp, and is no longer read from the cache 5 s after
  the fetch.
\<close>

theorem fresh_record_expires_before_minimum_ttl:
  "stamp 4 (timestamp 1700000000040) ((js ''203.0.113.5''), 3)
     = \<lparr>address = js ''203.0.113.5'', family = 4, expireAt = 1700000003\<rparr> \<and>
   Cache (fst (lookup (sample_world\<lparr>dns_resolve4 := Inr [((js ''203.0.113.5''), 3)]\<rparr>)
                 hosts_loaded (js ''example.test'') 4 False)) (js ''example.test'')
     = Some [\<lparr>address = js ''203.0.113.5'', family = 4, expireAt = 1700000003\<rparr>] \<and>
   cache_read [(js ''example.test'') \<mapsto> [\<lparr>address = js ''203.0.113.5'', family = 4, expireAt = 1700000003\<rparr>]]
      (js ''example.test'') 4 1700000005000 = Inr None"
  by (simp add: throttle_defs hosts_defs work_defs lookup_defs sample_defs)

subsection \<open>The cache write after an AAAA fetch\<close>

text \<open>The three writes to a cache slot. The write of \<^verbatim>\<open>updateV4\<close> replaces the family-4
  records and keeps the others; the write of the mapped records replaces the family-6
  records and keeps the others; the write after a successful AAAA fetch leaves an existing
  slot as it is.\<close>

lemma updateV4_write:
  assumes "dns_resolve4 w = Inr records" and "result l \<noteq> NotArray"
    and "get_prop (Cache st) host \<noteq> Inherited"
  shows "Cache (fst (updateV4 w host (st, l)))
           = (Cache st)(host \<mapsto>
                filter (\<lambda>a. family a \<noteq> 4) (case Cache st host of None \<Rightarrow> [] | Some slot \<Rightarrow> slot)
                @ map (stamp 4 (timestamp (now_v4 w))) records)"
  using assms
  by (cases "result l")
     (auto simp: updateV4_def push_result_def Let_def get_prop_def
           split: option.splits if_splits)

lemma updateV4_keeps_other_families:
  assumes "dns_resolve4 w = Inr records" and "result l \<noteq> NotArray"
    and "Cache st host = Some cacheSlot"
  shows "\<exists>slot1. Cache (fst (updateV4 w host (st, l))) host = Some slot1 \<and>
           filter (\<lambda>a. family a \<noteq> 4) slot1 = filter (\<lambda>a. family a \<noteq> 4) cacheSlot \<and>
           filter (\<lambda>a. family a = 4) slot1 = map (stamp 4 (timestamp (now_v4 w))) records"
proof -
  have "get_prop (Cache st) host \<noteq> Inherited"
    using assms(3) by (simp add: get_prop_def)
  from updateV4_write [OF assms(1,2) this] assms(3) show ?thesis
    by (simp add: filter_map comp_def)
qed

lemma fetchV6_mapped_write:
  assumes "dns_resolve6 w = Inl e" and "err_code e = Some (js ''ENODATA'')"
    and "err_syscall e = Some (js ''queryAaaa'')" and "v4updated l"
    and "Cache st host = Some cacheSlot"
  shows "Cache (fst (fetchV6 w host 6 (st, l)))
           = (Cache st)(host \<mapsto>
                filter (\<lambda>a. family a \<noteq> 6) cacheSlot
                @ map (\<lambda>a. \<lparr>address = js ''::ffff:'' @ address a, family = 6, expireAt = expireAt a\<rparr>)
                    (filter (\<lambda>a. family a \<noteq> 4) cacheSlot))"
  using assms
  by (simp add: fetchV6_def fetchV6_try_def fetchV6_catch_def get_prop_def Let_def)

lemma fetchV6_mapped_keeps_family4:
  assumes "dns_resolve6 w = Inl e" and "err_code e = Some (js ''ENODATA'')"
    and "err_syscall e = Some (js ''queryAaaa'')" and "v4updated l"
    and "Cache st host = Some cacheSlot"
  shows "\<exists>slot1. Cache (fst (fetchV6 w host 6 (st, l))) host = Some slot1 \<and>
           filter (\<lambda>a. family a \<noteq> 6) slot1 = filter (\<lambda>a. family a \<noteq> 6) cacheSlot"
  using assms
  by (simp add: fetchV6_mapped_write filter_map comp_def)

lemma fetchV6_success_keeps_slot:
  assumes "dns_resolve6 w = Inr records" and "Cache st host = Some cacheSlot"
  shows "Cache (fst (fetchV6 w host fam (st, l))) = Cache st"
  using assms
  by (cases "result l")
     (simp_all add: fetchV6_def fetchV6_try_def fetchV6_catch_def push_result_def get_prop_def
        TypeError_def Let_def)

text \<open>
  Claim C3 says each write of one family replaces the records of that family in the
  slot. The write after a successful AAAA fetch does not, when the slot exists: the new
  slot is built in a local variable and never assigned to \<^verbatim>\<open>Cache[hostname]\<close>. Here the
  slot holds an expired family-6 record; the fetch returns \<^verbatim>\<open>2001:db8::2\<close>, which the
  caller receives, and the slot still holds the old record and only that.
\<close>

theorem aaaa_write_leaves_existing_slot:
  "Cache (fst (lookup (sample_world\<lparr>dns_resolve6 := Inr [((js ''2001:db8::2''), 300)]\<rparr>)
                 (hosts_loaded\<lparr>Cache := [(js ''example.test'') \<mapsto>
                     [\<lparr>address = js ''2001:db8::1'', family = 6, expireAt = 1699990000\<rparr>]]\<rparr>)
                 (js ''example.test'') 6 True)) (js ''example.test'')
     = Some [\<lparr>address = js ''2001:db8::1'', family = 6, expireAt = 1699990000\<rparr>] \<and>
   fst (snd (lookup (sample_world\<lparr>dns_resolve6 := Inr [((js ''2001:db8::2''), 300)]\<rparr>)
                 (hosts_loaded\<lparr>Cache := [(js ''example.test'') \<mapsto>
                     [\<lparr>address = js ''2001:db8::1'', family = 6, expireAt = 1699990000\<rparr>]]\<rparr>)
                 (js ''example.test'') 6 True))
     = Fulfilled (Addresses [\<lparr>address = js ''2001:db8::2'', family = 6\<rparr>])"
  by (simp add: throttle_defs hosts_defs work_defs lookup_defs sample_defs)

subsection \<open>The IPv4-mapped answer for family 6\<close>

text \<open>
  Claim C1 says that, with the hosts record \<^verbatim>\<open>203.0.113.5\<close> for \<^verbatim>\<open>example.test\<close>, no cache
  entry and an AAAA query failing with \<^verbatim>\<open>ENODATA\<close>, a request for family 6 with \<^verbatim>\<open>all\<close>
  is answered \<^verbatim>\<open>[{ address: "::ffff:203.0.113.5", family: 6 }]\<close>. The source does not:
  \<^item> when the A query fails as well, there is no cache slot to map and the AAAA error is
    thrown;
  \<^item> when the A query returns \<^verbatim>\<open>203.0.113.5\<close>, the records mapped are those of
    family other than 4 (none), nothing is added to \<^verbatim>\<open>result\<close>, and the answer is the
    empty list; the cache slot holds the A record only.
\<close>

theorem mapped_ipv6_scenario_result:
  "fst (snd (lookup sample_world hosts_loaded (js ''example.test'') 6 True))
     = Rejected (dns_error ''queryAaaa'' ''ENODATA'' ''example.test'') \<and>
   fst (snd (lookup (sample_world\<lparr>dns_resolve4 := Inr [((js ''203.0.113.5''), 60)]\<rparr>)
               hosts_loaded (js ''example.test'') 6 True))
     = Fulfilled (Addresses []) \<and>
   Cache (fst (lookup (sample_world\<lparr>dns_resolve4 := Inr [((js ''203.0.113.5''), 60)]\<rparr>)
               hosts_loaded (js ''example.test'') 6 True)) (js ''example.test'')
     = Some [\<lparr>address = js ''203.0.113.5'', family = 4, expireAt = 1700000060\<rparr>]"
  by (simp add: throttle_defs hosts_defs work_defs lookup_defs sample_defs)

text \<open>The same holds whatever the A query answers: the answer never holds a mapped
  address.\<close>

lemma mapped_ipv6_scenario_any_A_answer:
  "fst (snd (lookup (sample_world\<lparr>dns_resolve4 := r4\<rparr>) hosts_loaded (js ''example.test'') 6 True))
     = (case r4 of
          Inl e4 \<Rightarrow> Rejected (dns_error ''queryAaaa'' ''ENODATA'' ''example.test'')
        | Inr records \<Rightarrow> Fulfilled (Addresses []))"
proof (cases r4)
  case (Inl e4)
  then show ?thesis
    by (simp add: throttle_defs hosts_defs work_defs lookup_defs sample_defs)
next
  case (Inr records)
  have "filter (\<lambda>a. family a = 6) (map strip (map (stamp 4 now) records)) = []" for now
    by (induction records) (simp_all add: strip_def)
  with Inr show ?thesis
    by (simp add: throttle_defs hosts_defs work_defs lookup_defs sample_defs)
qed

end
